theory Spec2Isabelle
  imports Complex_Main
begin

section \<open>JavaScript values\<close>

text \<open>
  The middleware of \<^verbatim>\<open>index.js\<close> tests its options and the results of its
  collaborators for truthiness and with \<^verbatim>\<open>typeof\<close>, so the values it handles are
  modelled as dynamically typed JavaScript values. A number matters only through its
  truthiness (zero and NaN are falsy); \<open>JsFin 0\<close> stands for both zeros. A function value
  is a reference into a table of functions, given where the options are read. Plain
  objects other than arrays and functions are not values of this model.
\<close>

datatype jsnum = JsNaN | JsInf bool | JsFin rat

type_synonym fnref = nat

datatype jsval =
    JUndefined
  | JNull
  | JBool bool
  | JNumber jsnum
  | JString string
  | JArray "jsval list"
  | JFunction fnref

fun truthy :: "jsval \<Rightarrow> bool" where
  "truthy JUndefined = False"
| "truthy JNull = False"
| "truthy (JBool b) = b"
| "truthy (JNumber JsNaN) = False"
| "truthy (JNumber (JsInf s)) = True"
| "truthy (JNumber (JsFin q)) = (q \<noteq> 0)"
| "truthy (JString s) = (s \<noteq> [])"
| "truthy (JArray xs) = True"
| "truthy (JFunction f) = True"

fun typeof :: "jsval \<Rightarrow> string" where
  "typeof JUndefined = ''undefined''"
| "typeof JNull = ''object''"
| "typeof (JBool b) = ''boolean''"
| "typeof (JNumber n) = ''number''"
| "typeof (JString s) = ''string''"
| "typeof (JArray xs) = ''object''"
| "typeof (JFunction f) = ''function''"

text \<open>\<^verbatim>\<open>a || b\<close>: the left operand when it is truthy, the right one otherwise.\<close>

definition js_or :: "jsval \<Rightarrow> jsval \<Rightarrow> jsval" where
  "js_or a b = (if truthy a then a else b)"

subsection \<open>Strings and arrays\<close>

text \<open>
  \<^verbatim>\<open>String.prototype.toLowerCase\<close> on the ASCII letters; HTTP method names are ASCII
  tokens, and any other character is left as it is.
\<close>

definition lower_char :: "char \<Rightarrow> char" where
  "lower_char c =
     (case map_of (zip ''ABCDEFGHIJKLMNOPQRSTUVWXYZ'' ''abcdefghijklmnopqrstuvwxyz'') c of
        None \<Rightarrow> c
      | Some l \<Rightarrow> l)"

definition toLowerCase :: "string \<Rightarrow> string" where
  "toLowerCase s = map lower_char s"

text \<open>
  \<^verbatim>\<open>Array.prototype.indexOf\<close> with a string as the value searched: strict equality
  holds for the elements that are strings of the same characters. The result is the first
  such position, or \<open>-1\<close>.
\<close>

fun array_indexOf :: "jsval list \<Rightarrow> string \<Rightarrow> int" where
  "array_indexOf [] s = -1"
| "array_indexOf (x # xs) s =
     (if x = JString s then 0
      else (let i = array_indexOf xs s in if i = -1 then -1 else i + 1))"

text \<open>\<^verbatim>\<open>String.prototype.indexOf\<close>: the first position where the argument occurs.\<close>

fun string_indexOf :: "string \<Rightarrow> string \<Rightarrow> int" where
  "string_indexOf [] s = (if s = [] then 0 else -1)"
| "string_indexOf (c # cs) s =
     (if take (length s) (c # cs) = s then 0
      else (let i = string_indexOf cs s in if i = -1 then -1 else i + 1))"

text \<open>
  \<^verbatim>\<open>v.indexOf(s)\<close> for a value \<open>v\<close>: arrays and strings have the method; on any other
  value the call raises a TypeError (\<open>None\<close>).
\<close>

fun indexOf :: "jsval \<Rightarrow> string \<Rightarrow> int option" where
  "indexOf (JArray xs) s = Some (array_indexOf xs s)"
| "indexOf (JString t) s = Some (string_indexOf t s)"
| "indexOf v s = None"

section \<open>Collaborators\<close>

subsection \<open>Request and response\<close>

text \<open>
  Modelled from the spec: the request and the response are objects of the surrounding
  framework, not part of this repository. Of the request the middleware reads
  \<^verbatim>\<open>req.method\<close>, a string, and calls \<^verbatim>\<open>req.get(name)\<close>; on the response it assigns
  \<^verbatim>\<open>res.locals.xsrfToken\<close>, calls \<^verbatim>\<open>res.cookie(name, value)\<close>, which adds a cookie, and
  \<^verbatim>\<open>res.sendStatus(412)\<close>, which ends the response with that status.
\<close>

record request =
  req_method :: string
  req_get :: "jsval \<Rightarrow> jsval"

record response =
  locals :: "string \<rightharpoonup> jsval"
  cookies :: "(jsval \<times> jsval) list"
  status :: "nat option"

subsection \<open>Session store\<close>

text \<open>
  Modelled from the spec: the session store (\<^verbatim>\<open>req.session\<close>, of the package
  alt-session) is not part of this repository. It is a key-value store with operations
  \<^verbatim>\<open>get(key, cb)\<close> and \<^verbatim>\<open>set(key, value, cb)\<close> that complete by calling \<^verbatim>\<open>cb\<close> once,
  with an error or with the value, and that may fail. \<open>faults\<close> schedules the failures:
  each operation takes the next entry as the error it reports; a falsy entry, or none
  left, is a success. A failed write leaves the store as it was.
\<close>

record session =
  store :: "jsval \<rightharpoonup> jsval"
  faults :: "jsval list"

subsection \<open>Events\<close>

text \<open>Every call the middleware makes on a collaborator, in the order it makes them.\<close>

datatype event =
    SessionGet jsval
  | SecretSync
  | SessionSet jsval jsval
  | Create jsval
  | SetLocals string jsval
  | SetCookie jsval jsval
  | MethodTest
  | CallIgnore
  | CallGetToken
  | Verify jsval jsval
  | CallNext
  | CallNextErr jsval
  | SendStatus nat
  | ThrowTypeError

text \<open>
  What outlives one request: the client's session, the randomness the cryptography
  collaborator draws from, and the events so far.
\<close>

record 'r world =
  session :: session
  entropy :: 'r
  trace :: "event list"

definition emit :: "event \<Rightarrow> 'r world \<Rightarrow> 'r world" where
  "emit e w = w\<lparr>trace := trace w @ [e]\<rparr>"

definition next_fault :: "session \<Rightarrow> jsval" where
  "next_fault s = (case faults s of [] \<Rightarrow> JNull | e # es \<Rightarrow> e)"

text \<open>\<^verbatim>\<open>session.get(key, cb)\<close>: the arguments \<open>(err, value)\<close> given to \<^verbatim>\<open>cb\<close>.\<close>

definition session_get :: "jsval \<Rightarrow> 'r world \<Rightarrow> (jsval \<times> jsval) \<times> 'r world" where
  "session_get key w =
     (let s = session w;
          err = next_fault s;
          w' = emit (SessionGet key) (w\<lparr>session := s\<lparr>faults := tl (faults s)\<rparr>\<rparr>)
      in if truthy err then ((err, JUndefined), w')
         else ((err, case store s key of None \<Rightarrow> JUndefined | Some v \<Rightarrow> v), w'))"

text \<open>\<^verbatim>\<open>session.set(key, value, cb)\<close>: the argument \<open>err\<close> given to \<^verbatim>\<open>cb\<close>.\<close>

definition session_set :: "jsval \<Rightarrow> jsval \<Rightarrow> 'r world \<Rightarrow> jsval \<times> 'r world" where
  "session_set key v w =
     (let s = session w;
          err = next_fault s;
          s' = s\<lparr>faults := tl (faults s)\<rparr>
      in if truthy err then (err, emit (SessionSet key v) (w\<lparr>session := s'\<rparr>))
         else (err, emit (SessionSet key v) (w\<lparr>session := s'\<lparr>store := (store s)(key \<mapsto> v)\<rparr>\<rparr>)))"

subsection \<open>Cryptography collaborator\<close>

text \<open>
  The object \<^verbatim>\<open>csrfTokens = csrf()\<close> of the package csrf, not part of this repository,
  is a parameter: \<^verbatim>\<open>secretSync()\<close> and \<^verbatim>\<open>create(secret)\<close> draw from the randomness and
  return a value, \<^verbatim>\<open>verify(secret, token)\<close> returns a boolean, and by the contract of the
  package none of them raises.
\<close>

record 'r csrf =
  secretSync :: "'r \<Rightarrow> jsval \<times> 'r"
  create :: "jsval \<Rightarrow> 'r \<Rightarrow> jsval \<times> 'r"
  verify :: "jsval \<Rightarrow> jsval \<Rightarrow> bool"

section \<open>The module\<close>

subsection \<open>Construction\<close>

text \<open>
  The argument \<^verbatim>\<open>options\<close>; \<open>None\<close> is a missing or falsy argument, which
  \<^verbatim>\<open>options || {}\<close> replaces by an object whose fields all read as undefined.
\<close>

record options =
  ignoredMethods :: jsval
  cookieName :: jsval
  headerName :: jsval
  sessionKey :: jsval
  ignore :: jsval
  getToken :: jsval

definition empty_options :: options where
  "empty_options =
     \<lparr>ignoredMethods = JUndefined, cookieName = JUndefined, headerName = JUndefined,
      sessionKey = JUndefined, ignore = JUndefined, getToken = JUndefined\<rparr>"

text \<open>The variables the returned middleware closes over (lines 50 to 64).\<close>

type_synonym handler = "request \<Rightarrow> response \<Rightarrow> jsval"

record config =
  IGNORED_METHODS :: jsval
  COOKIE_NAME :: jsval
  HEADER_NAME :: jsval
  SESSION_KEY :: jsval
  ignore_fn :: "handler option"
  getToken_fn :: handler

text \<open>
  A function value applied to the request and the response: \<open>funs\<close> gives the function
  each reference stands for. The constructor calls only values whose \<^verbatim>\<open>typeof\<close> is
  \<^verbatim>\<open>'function'\<close>, so the second equation is never reached from it.
\<close>

fun apply_fn :: "(fnref \<Rightarrow> handler) \<Rightarrow> jsval \<Rightarrow> handler" where
  "apply_fn funs (JFunction f) = funs f"
| "apply_fn funs v = (\<lambda>req res. JUndefined)"

text \<open>\<open>module_exports funs options\<close>: the constructor (lines 44 to 64).\<close>

definition module_exports :: "(fnref \<Rightarrow> handler) \<Rightarrow> options option \<Rightarrow> config" where
  "module_exports funs options_arg =
     (let options = (case options_arg of None \<Rightarrow> empty_options | Some opts \<Rightarrow> opts);
          header_name = js_or (headerName options) (JString ''X-XSRF-TOKEN'')
      in \<lparr>IGNORED_METHODS =
            js_or (ignoredMethods options)
              (JArray [JString ''get'', JString ''head'', JString ''options'']),
          COOKIE_NAME = js_or (cookieName options) (JString ''XSRF-TOKEN''),
          HEADER_NAME = header_name,
          SESSION_KEY = js_or (sessionKey options) (JString ''XSRF-SECRET''),
          ignore_fn =
            (if typeof (ignore options) = ''function''
             then Some (apply_fn funs (ignore options)) else None),
          getToken_fn =
            (if typeof (getToken options) = ''function''
             then apply_fn funs (getToken options)
             else (\<lambda>req res. req_get req header_name))\<rparr>)"

subsection \<open>Secret resolution\<close>

text \<open>
  \<^verbatim>\<open>obtainSecret(session, cb)\<close> (lines 97 to 109): the result is the pair of arguments
  \<open>(err, secret)\<close> that \<^verbatim>\<open>cb\<close> is called with; \<^verbatim>\<open>cb(err)\<close> leaves the second undefined.
\<close>

definition obtainSecret ::
  "config \<Rightarrow> 'r csrf \<Rightarrow> 'r world \<Rightarrow> (jsval \<times> jsval) \<times> 'r world" where
  "obtainSecret cfg c w =
     (let ((err, secret), w1) = session_get (SESSION_KEY cfg) w
      in if truthy err then ((err, JUndefined), w1)
         else if truthy secret then ((JNull, secret), w1)
         else
           (let (secret', r') = secretSync c (entropy w1);
                w2 = emit SecretSync (w1\<lparr>entropy := r'\<rparr>);
                (err', w3) = session_set (SESSION_KEY cfg) secret' w2
            in if truthy err' then ((err', JUndefined), w3)
               else ((JNull, secret'), w3)))"

subsection \<open>The middleware\<close>

text \<open>
  How a call of the middleware ends: \<^verbatim>\<open>next()\<close>, \<^verbatim>\<open>next(err)\<close>, \<^verbatim>\<open>res.sendStatus(412)\<close>,
  or the TypeError that line 77 raises when the ignored methods have no \<^verbatim>\<open>indexOf\<close>.
\<close>

datatype outcome =
    Proceed
  | Failed jsval
  | Rejected
  | Threw

text \<open>Lines 71 to 75: the token is created and put in the locals and in a cookie.\<close>

definition publish ::
  "config \<Rightarrow> 'r csrf \<Rightarrow> jsval \<Rightarrow> response \<Rightarrow> 'r world \<Rightarrow> response \<times> 'r world" where
  "publish cfg c xsrfSecret res w =
     (let (xsrfToken, r') = create c xsrfSecret (entropy w);
          w1 = emit (Create xsrfSecret) (w\<lparr>entropy := r'\<rparr>);
          res1 = res\<lparr>locals := (locals res)(''xsrfToken'' \<mapsto> xsrfToken)\<rparr>;
          w2 = emit (SetLocals ''xsrfToken'' xsrfToken) w1;
          res2 = res1\<lparr>cookies := cookies res1 @ [(COOKIE_NAME cfg, xsrfToken)]\<rparr>;
          w3 = emit (SetCookie (COOKIE_NAME cfg) xsrfToken) w2
      in (res2, w3))"

text \<open>
  Lines 77 to 86: the method test, the custom ignore function, the validation of the
  token, and the status 412.
\<close>

definition gate ::
  "config \<Rightarrow> 'r csrf \<Rightarrow> jsval \<Rightarrow> request \<Rightarrow> response \<Rightarrow> 'r world
     \<Rightarrow> outcome \<times> response \<times> 'r world" where
  "gate cfg c xsrfSecret req res w =
     (let w1 = emit MethodTest w
      in case indexOf (IGNORED_METHODS cfg) (toLowerCase (req_method req)) of
           None \<Rightarrow> (Threw, res, emit ThrowTypeError w1)
         | Some i \<Rightarrow>
             if i > -1 then (Proceed, res, emit CallNext w1)
             else
               (let (ignored, w2) =
                      (case ignore_fn cfg of
                         None \<Rightarrow> (False, w1)
                       | Some f \<Rightarrow> (truthy (f req res), emit CallIgnore w1))
                in if ignored then (Proceed, res, emit CallNext w2)
                   else
                     (let token = getToken_fn cfg req res;
                          w3 = emit CallGetToken w2;
                          ok = verify c xsrfSecret token;
                          w4 = emit (Verify xsrfSecret token) w3
                      in if ok then (Proceed, res, emit CallNext w4)
                         else (Rejected, res\<lparr>status := Some 412\<rparr>, emit (SendStatus 412) w4))))"

text \<open>The function returned by the constructor (lines 66 to 89).\<close>

definition middleware ::
  "config \<Rightarrow> 'r csrf \<Rightarrow> request \<Rightarrow> response \<Rightarrow> 'r world
     \<Rightarrow> outcome \<times> response \<times> 'r world" where
  "middleware cfg c req res w =
     (let ((err, xsrfSecret), w1) = obtainSecret cfg c w
      in if truthy err then (Failed err, res, emit (CallNextErr err) w1)
         else
           (let (res1, w2) = publish cfg c xsrfSecret res w1
            in gate cfg c xsrfSecret req res1 w2))"

subsection \<open>Requests in sequence\<close>

text \<open>
  The requests of one client, one after the other on the same session, each with its own
  response object; the world threads the session, the randomness and the events.
\<close>

fun serve ::
  "config \<Rightarrow> 'r csrf \<Rightarrow> (request \<times> response) list \<Rightarrow> 'r world \<Rightarrow> 'r world" where
  "serve cfg c [] w = w"
| "serve cfg c ((req, res) # rs) w = serve cfg c rs (snd (snd (middleware cfg c req res w)))"

section \<open>Observations\<close>

text \<open>The session writes among a list of events.\<close>

fun is_write :: "event \<Rightarrow> bool" where
  "is_write (SessionSet k v) = True"
| "is_write e = False"

definition writes :: "event list \<Rightarrow> nat" where
  "writes es = length (filter is_write es)"

text \<open>
  The outcome of the method test of line 77: \<open>Some True\<close> when the test holds,
  \<open>Some False\<close> when it does not, \<open>None\<close> when it raises.
\<close>

definition method_test :: "config \<Rightarrow> request \<Rightarrow> bool option" where
  "method_test cfg req =
     map_option (\<lambda>i. i > -1) (indexOf (IGNORED_METHODS cfg) (toLowerCase (req_method req)))"

text \<open>
  Following the words of the specification: a method is a member of the ignored methods
  under case-insensitive comparison when some entry is a string equal to it up to the
  case of the letters.
\<close>

definition member_ci :: "string \<Rightarrow> jsval list \<Rightarrow> bool" where
  "member_ci m ms =
     list_ex (\<lambda>x. case x of JString e \<Rightarrow> toLowerCase e = toLowerCase m | _ \<Rightarrow> False) ms"

text \<open>The error scheduled for the \<open>n\<close>-th coming operation of the session.\<close>

definition fault_at :: "'r world \<Rightarrow> nat \<Rightarrow> jsval" where
  "fault_at w n = next_fault ((session w)\<lparr>faults := drop n (faults (session w))\<rparr>)"

text \<open>The events a step added to the trace, and the calls of the continuation.\<close>

definition new_events :: "'r world \<Rightarrow> 'r world \<Rightarrow> event list" where
  "new_events w w' = drop (length (trace w)) (trace w')"

fun is_next :: "event \<Rightarrow> bool" where
  "is_next CallNext = True"
| "is_next (CallNextErr e) = True"
| "is_next e = False"

text \<open>The calls that evaluate a rule after the method test.\<close>

fun is_check :: "event \<Rightarrow> bool" where
  "is_check CallIgnore = True"
| "is_check CallGetToken = True"
| "is_check (Verify s t) = True"
| "is_check e = False"

text \<open>An entry of the ignored methods that lowercasing leaves as it is.\<close>

definition lowercase_entry :: "jsval \<Rightarrow> bool" where
  "lowercase_entry x = (case x of JString e \<Rightarrow> toLowerCase e = e | _ \<Rightarrow> True)"

text \<open>The value stored in the session under a key; a missing key reads as undefined.\<close>

definition stored :: "'r world \<Rightarrow> jsval \<Rightarrow> jsval" where
  "stored w key = (case store (session w) key of None \<Rightarrow> JUndefined | Some v \<Rightarrow> v)"

text \<open>
  The contract of the cryptography collaborator, as the package documents it: a token
  created from a secret verifies against that secret, a falsy token (a missing header, the
  empty string) never verifies, a token created from another secret does not verify, and a
  generated secret is truthy (a non-empty string).
\<close>

definition csrf_contract :: "'r csrf \<Rightarrow> bool" where
  "csrf_contract c \<longleftrightarrow>
     (\<forall>s r. verify c s (fst (create c s r))) \<and>
     (\<forall>s t. \<not> truthy t \<longrightarrow> \<not> verify c s t) \<and>
     (\<forall>s s' r. s' \<noteq> s \<longrightarrow> \<not> verify c s (fst (create c s' r)))"

definition secret_contract :: "'r csrf \<Rightarrow> bool" where
  "secret_contract c \<longleftrightarrow> (\<forall>r. truthy (fst (secretSync c r)))"

section \<open>Concrete instances\<close>

text \<open>
  A collaborator that meets the contract, with a counter as its randomness: a token is
  the pair of a salt and the secret.
\<close>

definition toy_csrf :: "nat csrf" where
  "toy_csrf =
     \<lparr>secretSync = (\<lambda>r. (JString (''secret'' @ replicate r CHR ''!''), Suc r)),
      create = (\<lambda>s r. (JArray [JString (replicate r CHR ''*''), s], Suc r)),
      verify = (\<lambda>s t. case t of JArray [salt, s'] \<Rightarrow> s' = s | _ \<Rightarrow> False)\<rparr>"

definition no_funs :: "fnref \<Rightarrow> handler" where
  "no_funs f = (\<lambda>req res. JUndefined)"

definition sample_options :: options where
  "sample_options =
     \<lparr>ignoredMethods = JArray [], cookieName = JString '''', headerName = JUndefined,
      sessionKey = JString ''sid'', ignore = JBool True, getToken = JString ''query''\<rparr>"

definition default_config :: config where
  "default_config = module_exports no_funs None"

definition header_request :: "string \<Rightarrow> jsval \<Rightarrow> request" where
  "header_request m t =
     \<lparr>req_method = m,
      req_get = (\<lambda>name. if name = JString ''X-XSRF-TOKEN'' then t else JUndefined)\<rparr>"

definition fresh_response :: response where
  "fresh_response = \<lparr>locals = Map.empty, cookies = [], status = None\<rparr>"

definition world_of :: "(jsval \<rightharpoonup> jsval) \<Rightarrow> jsval list \<Rightarrow> nat world" where
  "world_of st fs = \<lparr>session = \<lparr>store = st, faults = fs\<rparr>, entropy = 0, trace = []\<rparr>"

text \<open>A session that holds the secret \<^verbatim>\<open>'S'\<close> under the default key.\<close>

definition store_S :: "jsval \<rightharpoonup> jsval" where
  "store_S = Map.empty(JString ''XSRF-SECRET'' \<mapsto> JString ''S'')"

text \<open>A custom ignore function that ignores every request.\<close>

definition ignore_all :: "fnref \<Rightarrow> handler" where
  "ignore_all f = (\<lambda>req res. JBool True)"

definition ignoring_config :: config where
  "ignoring_config = module_exports ignore_all (Some (empty_options\<lparr>ignore := JFunction 0\<rparr>))"

text \<open>
  Requests on that session, with the default configuration: a POST without a token, a
  POST with a token created from the secret, and a POST under the configuration that
  ignores every request.
\<close>

definition post_without_token :: "outcome \<times> response \<times> nat world" where
  "post_without_token =
     middleware default_config toy_csrf (header_request ''POST'' JUndefined) fresh_response
       (world_of store_S [])"

definition post_with_token :: "outcome \<times> response \<times> nat world" where
  "post_with_token =
     middleware default_config toy_csrf
       (header_request ''POST'' (fst (create toy_csrf (JString ''S'') 7))) fresh_response
       (world_of store_S [])"

definition post_ignored :: "outcome \<times> response \<times> nat world" where
  "post_ignored =
     middleware ignoring_config toy_csrf (header_request ''POST'' JUndefined) fresh_response
       (world_of store_S [])"

text \<open>
  A configuration whose ignored methods are written in uppercase, and a GET without a
  token under it.
\<close>

definition uppercase_config :: config where
  "uppercase_config =
     module_exports no_funs (Some (empty_options\<lparr>ignoredMethods := JArray [JString ''GET'']\<rparr>))"

definition get_uppercase :: "outcome \<times> response \<times> nat world" where
  "get_uppercase =
     middleware uppercase_config toy_csrf (header_request ''GET'' JUndefined) fresh_response
       (world_of store_S [])"

text \<open>The first request of a session without a secret, whose read fails.\<close>

definition failing_read :: "outcome \<times> response \<times> nat world" where
  "failing_read =
     middleware default_config toy_csrf (header_request ''GET'' JUndefined) fresh_response
       (world_of Map.empty [JString ''ECONNREFUSED''])"

section \<open>Values and construction\<close>

lemma typeof_function: "typeof v = ''function'' \<longleftrightarrow> (\<exists>f. v = JFunction f)"
  by (cases v) simp_all

text \<open>
  C9. At construction a falsy value of \<^verbatim>\<open>cookieName\<close>, \<^verbatim>\<open>headerName\<close>, \<^verbatim>\<open>sessionKey\<close> or
  \<^verbatim>\<open>ignoredMethods\<close> (the empty string, an undefined field) is replaced by the default
  \<^verbatim>\<open>'XSRF-TOKEN'\<close>, \<^verbatim>\<open>'X-XSRF-TOKEN'\<close>, \<^verbatim>\<open>'XSRF-SECRET'\<close>, \<^verbatim>\<open>['get','head','options']\<close>, so
  that no name is ever the empty string; a truthy value, in particular a non-empty string
  or an array, whatever its elements, is used as given. Without options every default
  applies.
\<close>

theorem construction_defaults:
  "(\<not> truthy (cookieName opts) \<longrightarrow>
      COOKIE_NAME (module_exports funs (Some opts)) = JString ''XSRF-TOKEN'') \<and>
   (\<not> truthy (headerName opts) \<longrightarrow>
      HEADER_NAME (module_exports funs (Some opts)) = JString ''X-XSRF-TOKEN'') \<and>
   (\<not> truthy (sessionKey opts) \<longrightarrow>
      SESSION_KEY (module_exports funs (Some opts)) = JString ''XSRF-SECRET'') \<and>
   (\<not> truthy (ignoredMethods opts) \<longrightarrow>
      IGNORED_METHODS (module_exports funs (Some opts)) =
        JArray [JString ''get'', JString ''head'', JString ''options'']) \<and>
   (truthy (cookieName opts) \<longrightarrow>
      COOKIE_NAME (module_exports funs (Some opts)) = cookieName opts) \<and>
   (truthy (headerName opts) \<longrightarrow>
      HEADER_NAME (module_exports funs (Some opts)) = headerName opts) \<and>
   (truthy (sessionKey opts) \<longrightarrow>
      SESSION_KEY (module_exports funs (Some opts)) = sessionKey opts) \<and>
   (truthy (ignoredMethods opts) \<longrightarrow>
      IGNORED_METHODS (module_exports funs (Some opts)) = ignoredMethods opts) \<and>
   \<not> truthy (JString '''') \<and> \<not> truthy JUndefined \<and>
   (\<forall>c cs. truthy (JString (c # cs))) \<and> (\<forall>xs. truthy (JArray xs)) \<and>
   COOKIE_NAME (module_exports funs (Some opts)) \<noteq> JString '''' \<and>
   HEADER_NAME (module_exports funs (Some opts)) \<noteq> JString '''' \<and>
   SESSION_KEY (module_exports funs (Some opts)) \<noteq> JString '''' \<and>
   COOKIE_NAME (module_exports funs None) = JString ''XSRF-TOKEN'' \<and>
   HEADER_NAME (module_exports funs None) = JString ''X-XSRF-TOKEN'' \<and>
   SESSION_KEY (module_exports funs None) = JString ''XSRF-SECRET'' \<and>
   IGNORED_METHODS (module_exports funs None) =
     JArray [JString ''get'', JString ''head'', JString ''options'']"
  by (auto simp: module_exports_def Let_def js_or_def empty_options_def)

theorem construction_defaults_witness:
  "COOKIE_NAME (module_exports no_funs (Some sample_options)) = JString ''XSRF-TOKEN'' \<and>
   HEADER_NAME (module_exports no_funs (Some sample_options)) = JString ''X-XSRF-TOKEN'' \<and>
   SESSION_KEY (module_exports no_funs (Some sample_options)) = JString ''sid'' \<and>
   IGNORED_METHODS (module_exports no_funs (Some sample_options)) = JArray []"
  using construction_defaults [of sample_options no_funs]
  by (simp add: sample_options_def)

text \<open>
  C10. At construction a value of \<^verbatim>\<open>options.ignore\<close> or \<^verbatim>\<open>options.getToken\<close> that is not
  a function is discarded, and nothing is raised: the middleware built is the one built
  with the field undefined, that is, without an ignore predicate, and with the default
  extractor, which reads the configured header name from the request.
\<close>

theorem non_function_callbacks_discarded:
  "(typeof (ignore opts) \<noteq> ''function'' \<longrightarrow>
      ignore_fn (module_exports funs (Some opts)) = None \<and>
      module_exports funs (Some opts) = module_exports funs (Some (opts\<lparr>ignore := JUndefined\<rparr>))) \<and>
   (typeof (getToken opts) \<noteq> ''function'' \<longrightarrow>
      (\<forall>req res. getToken_fn (module_exports funs (Some opts)) req res =
         req_get req (HEADER_NAME (module_exports funs (Some opts)))) \<and>
      module_exports funs (Some opts) =
        module_exports funs (Some (opts\<lparr>getToken := JUndefined\<rparr>)))"
  by (simp add: module_exports_def Let_def)

theorem non_function_callbacks_discarded_witness:
  "ignore_fn (module_exports no_funs (Some sample_options)) = None \<and>
   getToken_fn (module_exports no_funs (Some sample_options))
     (header_request ''POST'' (JString ''t'')) fresh_response = JString ''t''"
  using non_function_callbacks_discarded [of sample_options no_funs]
  by (simp add: sample_options_def module_exports_def Let_def js_or_def header_request_def)

section \<open>Basic facts\<close>

lemma emit_simps [simp]:
  "trace (emit e w) = trace w @ [e]"
  "session (emit e w) = session w"
  "entropy (emit e w) = entropy w"
  by (simp_all add: emit_def)

lemma next_fault_0: "next_fault (session w) = fault_at w 0"
  by (simp add: next_fault_def fault_at_def)

lemma fault_at_faults:
  "faults (session w') = drop k (faults (session w)) \<Longrightarrow> fault_at w' n = fault_at w (n + k)"
  by (simp add: fault_at_def next_fault_def)

lemma session_get_result:
  "fst (session_get key w) =
     (if truthy (fault_at w 0) then (fault_at w 0, JUndefined) else (fault_at w 0, stored w key))"
  by (simp add: session_get_def Let_def next_fault_0 stored_def)

lemma session_get_world:
  "trace (snd (session_get key w)) = trace w @ [SessionGet key]"
  "store (session (snd (session_get key w))) = store (session w)"
  "faults (session (snd (session_get key w))) = tl (faults (session w))"
  "entropy (snd (session_get key w)) = entropy w"
  by (simp_all add: session_get_def Let_def)

lemma session_set_result:
  "fst (session_set key v w) = fault_at w 0"
  by (simp add: session_set_def Let_def next_fault_0)

lemma session_set_world:
  "trace (snd (session_set key v w)) = trace w @ [SessionSet key v]"
  "store (session (snd (session_set key v w))) =
     (if truthy (fault_at w 0) then store (session w) else (store (session w))(key \<mapsto> v))"
  "faults (session (snd (session_set key v w))) = tl (faults (session w))"
  "entropy (snd (session_set key v w)) = entropy w"
  by (simp_all add: session_set_def Let_def next_fault_0)

lemma obtainSecret_read_error:
  assumes "truthy (fault_at w 0)"
  shows "fst (obtainSecret cfg c w) = (fault_at w 0, JUndefined)"
    and "trace (snd (obtainSecret cfg c w)) = trace w @ [SessionGet (SESSION_KEY cfg)]"
    and "store (session (snd (obtainSecret cfg c w))) = store (session w)"
    and "faults (session (snd (obtainSecret cfg c w))) = tl (faults (session w))"
    and "entropy (snd (obtainSecret cfg c w)) = entropy w"
  using assms
  by (simp_all add: obtainSecret_def Let_def split_beta session_get_result session_get_world)

lemma obtainSecret_found:
  assumes "\<not> truthy (fault_at w 0)" "truthy (stored w (SESSION_KEY cfg))"
  shows "fst (obtainSecret cfg c w) = (JNull, stored w (SESSION_KEY cfg))"
    and "trace (snd (obtainSecret cfg c w)) = trace w @ [SessionGet (SESSION_KEY cfg)]"
    and "store (session (snd (obtainSecret cfg c w))) = store (session w)"
    and "faults (session (snd (obtainSecret cfg c w))) = tl (faults (session w))"
    and "entropy (snd (obtainSecret cfg c w)) = entropy w"
  using assms
  by (simp_all add: obtainSecret_def Let_def split_beta session_get_result session_get_world)

lemma obtainSecret_created:
  assumes "\<not> truthy (fault_at w 0)" "\<not> truthy (stored w (SESSION_KEY cfg))"
  shows "fst (obtainSecret cfg c w) =
           (if truthy (fault_at w 1) then (fault_at w 1, JUndefined)
            else (JNull, fst (secretSync c (entropy w))))"
    and "trace (snd (obtainSecret cfg c w)) =
           trace w @ [SessionGet (SESSION_KEY cfg), SecretSync,
                      SessionSet (SESSION_KEY cfg) (fst (secretSync c (entropy w)))]"
    and "store (session (snd (obtainSecret cfg c w))) =
           (if truthy (fault_at w 1) then store (session w)
            else (store (session w))(SESSION_KEY cfg \<mapsto> fst (secretSync c (entropy w))))"
    and "faults (session (snd (obtainSecret cfg c w))) = tl (tl (faults (session w)))"
    and "entropy (snd (obtainSecret cfg c w)) = snd (secretSync c (entropy w))"
proof -
  let ?w1 = "snd (session_get (SESSION_KEY cfg) w)"
  let ?w2 = "emit SecretSync (?w1\<lparr>entropy := snd (secretSync c (entropy w))\<rparr>)"
  have f: "fault_at ?w2 0 = fault_at w 1"
    using fault_at_faults [of ?w2 1 w 0]
    by (simp add: session_get_world drop_Suc)
  have o: "obtainSecret cfg c w =
      (let r = session_set (SESSION_KEY cfg) (fst (secretSync c (entropy w))) ?w2
       in if truthy (fst r) then ((fst r, JUndefined), snd r)
          else ((JNull, fst (secretSync c (entropy w))), snd r))"
    using assms
    by (simp add: obtainSecret_def Let_def split_beta session_get_result session_get_world)
  show "fst (obtainSecret cfg c w) =
           (if truthy (fault_at w 1) then (fault_at w 1, JUndefined)
            else (JNull, fst (secretSync c (entropy w))))"
    by (simp add: o Let_def session_set_result f)
  show "trace (snd (obtainSecret cfg c w)) =
           trace w @ [SessionGet (SESSION_KEY cfg), SecretSync,
                      SessionSet (SESSION_KEY cfg) (fst (secretSync c (entropy w)))]"
    by (simp add: o Let_def session_set_world session_get_world)
  show "store (session (snd (obtainSecret cfg c w))) =
           (if truthy (fault_at w 1) then store (session w)
            else (store (session w))(SESSION_KEY cfg \<mapsto> fst (secretSync c (entropy w))))"
    by (simp add: o Let_def session_set_world session_get_world session_set_result f)
  show "faults (session (snd (obtainSecret cfg c w))) = tl (tl (faults (session w)))"
    by (simp add: o Let_def session_set_world session_get_world)
  show "entropy (snd (obtainSecret cfg c w)) = snd (secretSync c (entropy w))"
    by (simp add: o Let_def session_set_world session_get_world)
qed


lemma publish_result:
  "fst (publish cfg c s res w) =
     res\<lparr>locals := (locals res)(''xsrfToken'' \<mapsto> fst (create c s (entropy w))),
         cookies := cookies res @ [(COOKIE_NAME cfg, fst (create c s (entropy w)))]\<rparr>"
  by (simp add: publish_def Let_def split_beta)

lemma publish_world:
  "trace (snd (publish cfg c s res w)) =
     trace w @ [Create s, SetLocals ''xsrfToken'' (fst (create c s (entropy w))),
                SetCookie (COOKIE_NAME cfg) (fst (create c s (entropy w)))]"
  "session (snd (publish cfg c s res w)) = session w"
  "entropy (snd (publish cfg c s res w)) = snd (create c s (entropy w))"
  by (simp_all add: publish_def Let_def split_beta)

lemma gate_session:
  "session (snd (snd (gate cfg c s req res w))) = session w"
  "entropy (snd (snd (gate cfg c s req res w))) = entropy w"
  by (simp_all add: gate_def Let_def split_beta split: option.splits)

lemma gate_throws:
  assumes "method_test cfg req = None"
  shows "fst (gate cfg c s req res w) = Threw"
    and "fst (snd (gate cfg c s req res w)) = res"
    and "trace (snd (snd (gate cfg c s req res w))) = trace w @ [MethodTest, ThrowTypeError]"
  using assms by (simp_all add: gate_def method_test_def Let_def)

lemma gate_method:
  assumes "method_test cfg req = Some True"
  shows "fst (gate cfg c s req res w) = Proceed"
    and "fst (snd (gate cfg c s req res w)) = res"
    and "trace (snd (snd (gate cfg c s req res w))) = trace w @ [MethodTest, CallNext]"
  using assms by (auto simp: gate_def method_test_def Let_def)

lemma gate_custom:
  assumes "method_test cfg req = Some False" "ignore_fn cfg = Some f" "truthy (f req res)"
  shows "fst (gate cfg c s req res w) = Proceed"
    and "fst (snd (gate cfg c s req res w)) = res"
    and "trace (snd (snd (gate cfg c s req res w))) = trace w @ [MethodTest, CallIgnore, CallNext]"
  using assms by (auto simp: gate_def method_test_def Let_def)

lemma gate_verify:
  assumes "method_test cfg req = Some False"
    and "\<forall>f. ignore_fn cfg = Some f \<longrightarrow> \<not> truthy (f req res)"
  shows "fst (gate cfg c s req res w) =
           (if verify c s (getToken_fn cfg req res) then Proceed else Rejected)"
    and "fst (snd (gate cfg c s req res w)) =
           (if verify c s (getToken_fn cfg req res) then res else res\<lparr>status := Some 412\<rparr>)"
    and "trace (snd (snd (gate cfg c s req res w))) =
           trace w @ MethodTest # (if ignore_fn cfg = None then [] else [CallIgnore]) @
             [CallGetToken, Verify s (getToken_fn cfg req res),
              if verify c s (getToken_fn cfg req res) then CallNext else SendStatus 412]"
  using assms by (auto simp: gate_def method_test_def Let_def split: option.splits)

lemma middleware_failed:
  assumes "obtainSecret cfg c w = ((err, s), w1)" "truthy err"
  shows "middleware cfg c req res w = (Failed err, res, emit (CallNextErr err) w1)"
  using assms by (simp add: middleware_def)

lemma middleware_resolved:
  assumes "obtainSecret cfg c w = ((err, s), w1)" "\<not> truthy err"
  shows "middleware cfg c req res w =
           gate cfg c s req (fst (publish cfg c s res w1)) (snd (publish cfg c s res w1))"
  using assms by (simp add: middleware_def split_beta)

lemma array_indexOf_ge: "- 1 \<le> array_indexOf xs s"
  by (induction xs) (auto simp: Let_def)

lemma array_indexOf_mem: "array_indexOf xs s > - 1 \<longleftrightarrow> JString s \<in> set xs"
proof (induction xs)
  case Nil
  show ?case by simp
next
  case (Cons x xs)
  have "- 1 \<le> array_indexOf xs s" by (rule array_indexOf_ge)
  with Cons show ?case by (auto simp: Let_def)
qed

lemma method_test_array:
  "IGNORED_METHODS cfg = JArray ms \<Longrightarrow>
     method_test cfg req = Some (JString (toLowerCase (req_method req)) \<in> set ms)"
  by (simp add: method_test_def array_indexOf_mem)


lemma new_events_append: "trace w' = trace w @ es \<Longrightarrow> new_events w w' = es"
  by (simp add: new_events_def)

lemma toy_contract: "csrf_contract toy_csrf" "secret_contract toy_csrf"
  by (auto simp: csrf_contract_def secret_contract_def toy_csrf_def split: jsval.splits list.splits)

text \<open>The equations that evaluate the model on the concrete instances.\<close>

lemmas model_defs =
  middleware_def obtainSecret_def session_get_def session_set_def next_fault_def emit_def
  publish_def gate_def module_exports_def empty_options_def js_or_def Let_def
  toLowerCase_def lower_char_def

lemmas instance_defs =
  toy_csrf_def world_of_def store_S_def default_config_def header_request_def
  fresh_response_def no_funs_def ignore_all_def ignoring_config_def

section \<open>Secret resolution\<close>

text \<open>
  C5. \<^verbatim>\<open>obtainSecret\<close> reads the configured session key. When the read reports an
  error, it completes with that same error and writes nothing. When the read gives a
  truthy value, it completes with that value and writes nothing. Otherwise it generates
  a secret, writes it to the session under the configured key, and completes with the
  error of the write when the write fails, with the generated secret when it succeeds.
\<close>

theorem obtainSecret_algorithm:
  "(truthy (fault_at w 0) \<longrightarrow>
      fst (obtainSecret cfg c w) = (fault_at w 0, JUndefined) \<and>
      new_events w (snd (obtainSecret cfg c w)) = [SessionGet (SESSION_KEY cfg)] \<and>
      store (session (snd (obtainSecret cfg c w))) = store (session w)) \<and>
   (\<not> truthy (fault_at w 0) \<and> truthy (stored w (SESSION_KEY cfg)) \<longrightarrow>
      fst (obtainSecret cfg c w) = (JNull, stored w (SESSION_KEY cfg)) \<and>
      new_events w (snd (obtainSecret cfg c w)) = [SessionGet (SESSION_KEY cfg)] \<and>
      store (session (snd (obtainSecret cfg c w))) = store (session w)) \<and>
   (\<not> truthy (fault_at w 0) \<and> \<not> truthy (stored w (SESSION_KEY cfg)) \<longrightarrow>
      new_events w (snd (obtainSecret cfg c w)) =
        [SessionGet (SESSION_KEY cfg), SecretSync,
         SessionSet (SESSION_KEY cfg) (fst (secretSync c (entropy w)))] \<and>
      (truthy (fault_at w 1) \<longrightarrow>
         fst (obtainSecret cfg c w) = (fault_at w 1, JUndefined)) \<and>
      (\<not> truthy (fault_at w 1) \<longrightarrow>
         fst (obtainSecret cfg c w) = (JNull, fst (secretSync c (entropy w))) \<and>
         stored (snd (obtainSecret cfg c w)) (SESSION_KEY cfg) = fst (secretSync c (entropy w))))"
proof (intro conjI impI)
  assume a: "truthy (fault_at w 0)"
  show "fst (obtainSecret cfg c w) = (fault_at w 0, JUndefined)"
    by (rule obtainSecret_read_error(1) [OF a])
  show "new_events w (snd (obtainSecret cfg c w)) = [SessionGet (SESSION_KEY cfg)]"
    by (rule new_events_append) (rule obtainSecret_read_error(2) [OF a])
  show "store (session (snd (obtainSecret cfg c w))) = store (session w)"
    by (rule obtainSecret_read_error(3) [OF a])
next
  assume "\<not> truthy (fault_at w 0) \<and> truthy (stored w (SESSION_KEY cfg))"
  then have a: "\<not> truthy (fault_at w 0)" and b: "truthy (stored w (SESSION_KEY cfg))"
    by simp_all
  show "fst (obtainSecret cfg c w) = (JNull, stored w (SESSION_KEY cfg))"
    by (rule obtainSecret_found(1) [OF a b])
  show "new_events w (snd (obtainSecret cfg c w)) = [SessionGet (SESSION_KEY cfg)]"
    by (rule new_events_append) (rule obtainSecret_found(2) [OF a b])
  show "store (session (snd (obtainSecret cfg c w))) = store (session w)"
    by (rule obtainSecret_found(3) [OF a b])
next
  assume "\<not> truthy (fault_at w 0) \<and> \<not> truthy (stored w (SESSION_KEY cfg))"
  then have a: "\<not> truthy (fault_at w 0)" and b: "\<not> truthy (stored w (SESSION_KEY cfg))"
    by simp_all
  show "new_events w (snd (obtainSecret cfg c w)) =
        [SessionGet (SESSION_KEY cfg), SecretSync,
         SessionSet (SESSION_KEY cfg) (fst (secretSync c (entropy w)))]"
    by (rule new_events_append) (rule obtainSecret_created(2) [OF a b])
  show "fst (obtainSecret cfg c w) = (fault_at w 1, JUndefined)" if "truthy (fault_at w 1)"
    using that by (simp add: obtainSecret_created(1) [OF a b])
  show "fst (obtainSecret cfg c w) = (JNull, fst (secretSync c (entropy w)))"
    if "\<not> truthy (fault_at w 1)"
    using that by (simp add: obtainSecret_created(1) [OF a b])
  show "stored (snd (obtainSecret cfg c w)) (SESSION_KEY cfg) = fst (secretSync c (entropy w))"
    if "\<not> truthy (fault_at w 1)"
    using that by (simp add: stored_def obtainSecret_created(3) [OF a b])
qed

theorem obtainSecret_algorithm_witness:
  "fst (obtainSecret default_config toy_csrf (world_of Map.empty [JString ''read failed''])) =
     (JString ''read failed'', JUndefined) \<and>
   fst (obtainSecret default_config toy_csrf (world_of store_S [])) = (JNull, JString ''S'') \<and>
   fst (obtainSecret default_config toy_csrf (world_of Map.empty [JNull, JString ''write failed''])) =
     (JString ''write failed'', JUndefined) \<and>
   fst (obtainSecret default_config toy_csrf (world_of Map.empty [])) = (JNull, JString ''secret'') \<and>
   new_events (world_of Map.empty [])
     (snd (obtainSecret default_config toy_csrf (world_of Map.empty []))) =
     [SessionGet (JString ''XSRF-SECRET''), SecretSync,
      SessionSet (JString ''XSRF-SECRET'') (JString ''secret'')]"
  using obtainSecret_algorithm [of "world_of Map.empty [JString ''read failed'']" default_config toy_csrf]
    obtainSecret_algorithm [of "world_of store_S []" default_config toy_csrf]
    obtainSecret_algorithm [of "world_of Map.empty [JNull, JString ''write failed'']" default_config toy_csrf]
    obtainSecret_algorithm [of "world_of Map.empty []" default_config toy_csrf]
  by (simp add: fault_at_def next_fault_def world_of_def stored_def store_S_def default_config_def
      module_exports_def empty_options_def js_or_def Let_def toy_csrf_def)


lemma obtainSecret_trace:
  "\<exists>es. trace (snd (obtainSecret cfg c w)) = trace w @ es \<and> \<not> list_ex is_next es"
proof (cases "truthy (fault_at w 0)")
  case True
  then show ?thesis by (simp add: obtainSecret_read_error(2))
next
  case False
  then show ?thesis
    by (cases "truthy (stored w (SESSION_KEY cfg))")
      (simp_all add: obtainSecret_found(2) obtainSecret_created(2))
qed

lemma resolved_prefix:
  assumes "obtainSecret cfg c w = ((err, s), w1)"
    and "publish cfg c s res w1 = (res1, w2)"
  shows "\<exists>es. trace w2 = trace w @ es \<and> \<not> list_ex is_next es"
proof -
  obtain es where es: "trace w1 = trace w @ es" "\<not> list_ex is_next es"
    using obtainSecret_trace [of cfg c w] assms(1) by auto
  have "trace w2 = trace w1 @ [Create s, SetLocals ''xsrfToken'' (fst (create c s (entropy w1))),
      SetCookie (COOKIE_NAME cfg) (fst (create c s (entropy w1)))]"
    using publish_world(1) [of cfg c s res w1] assms(2) by simp
  with es show ?thesis by simp
qed

section \<open>Token issuance\<close>

text \<open>
  C4. On every request whose secret resolution succeeds, a token created from the
  resolved secret is assigned to \<^verbatim>\<open>res.locals.xsrfToken\<close> and then set as the cookie of
  the configured name, before the method test that opens the decision: whatever the
  method, the ignore predicate and the outcome (the status 412 included), the response
  ends up with both.
\<close>

theorem token_published_before_decision:
  assumes "obtainSecret cfg c w = ((err, s), w1)"
    and "\<not> truthy err"
    and "create c s (entropy w1) = (t, r')"
    and "middleware cfg c req res w = (out, res', w')"
  shows "(\<exists>decision. new_events w1 w' =
            [Create s, SetLocals ''xsrfToken'' t, SetCookie (COOKIE_NAME cfg) t, MethodTest]
              @ decision) \<and>
         locals res' ''xsrfToken'' = Some t \<and>
         cookies res' = cookies res @ [(COOKIE_NAME cfg, t)]"
proof -
  let ?res1 = "fst (publish cfg c s res w1)" and ?w2 = "snd (publish cfg c s res w1)"
  have m: "gate cfg c s req ?res1 ?w2 = (out, res', w')"
    using middleware_resolved [OF assms(1,2), of req res] assms(4) by simp
  have t: "fst (create c s (entropy w1)) = t"
    using assms(3) by simp
  have tr: "\<exists>d. trace w' = trace ?w2 @ MethodTest # d"
    using m by (auto simp: gate_def Let_def split: option.splits if_splits)
  have rs: "locals res' = locals ?res1 \<and> cookies res' = cookies ?res1"
    using m by (auto simp: gate_def Let_def split: option.splits if_splits)
  from tr obtain d where "trace w' = trace ?w2 @ MethodTest # d" ..
  then have "new_events w1 w' =
      [Create s, SetLocals ''xsrfToken'' t, SetCookie (COOKIE_NAME cfg) t, MethodTest] @ d"
    by (simp add: new_events_def publish_world t)
  moreover have "locals res' ''xsrfToken'' = Some t"
    using rs by (simp add: publish_result t)
  moreover have "cookies res' = cookies res @ [(COOKIE_NAME cfg, t)]"
    using rs by (simp add: publish_result t)
  ultimately show ?thesis by blast
qed


theorem token_published_before_decision_witness:
  "fst post_without_token = Rejected \<and>
   locals (fst (snd post_without_token)) ''xsrfToken'' = Some (JArray [JString [], JString ''S'']) \<and>
   cookies (fst (snd post_without_token)) =
     [(JString ''XSRF-TOKEN'', JArray [JString [], JString ''S''])]"
  using token_published_before_decision
    [where cfg = default_config and c = toy_csrf and w = "world_of store_S []"
       and err = JNull and s = "JString ''S''"
       and ?w1.0 = "snd (obtainSecret default_config toy_csrf (world_of store_S []))"
       and t = "JArray [JString [], JString ''S'']" and r' = 1
       and req = "header_request ''POST'' JUndefined" and res = fresh_response
       and out = "fst post_without_token" and res' = "fst (snd post_without_token)"
       and w' = "snd (snd post_without_token)"]
  by (simp add: post_without_token_def model_defs instance_defs)

section \<open>The verification gate\<close>

text \<open>
  C3. The decision evaluates its rules in order: the method test, then the custom ignore
  predicate when one is configured, then the extraction and the verification of the
  token. The first rule that matches calls the continuation and nothing after it is
  evaluated: no ignore predicate, extraction or verification after a method that is
  ignored, no extraction or verification after a predicate that returns a truthy value.
  For an array of ignored methods the method test is the membership of the lowercased
  method.
\<close>

theorem decision_order:
  assumes "obtainSecret cfg c w = ((err, s), w1)"
    and "\<not> truthy err"
    and "publish cfg c s res w1 = (res1, w2)"
    and "middleware cfg c req res w = (out, res', w')"
  shows "(method_test cfg req = Some True \<longrightarrow>
            out = Proceed \<and> new_events w2 w' = [MethodTest, CallNext]) \<and>
         (method_test cfg req = None \<longrightarrow>
            out = Threw \<and> new_events w2 w' = [MethodTest, ThrowTypeError]) \<and>
         (method_test cfg req = Some False \<longrightarrow>
            (\<forall>f. ignore_fn cfg = Some f \<and> truthy (f req res1) \<longrightarrow>
               out = Proceed \<and> new_events w2 w' = [MethodTest, CallIgnore, CallNext]) \<and>
            (\<forall>f. ignore_fn cfg = Some f \<and> \<not> truthy (f req res1) \<longrightarrow>
               new_events w2 w' =
                 [MethodTest, CallIgnore, CallGetToken, Verify s (getToken_fn cfg req res1),
                  if verify c s (getToken_fn cfg req res1) then CallNext else SendStatus 412]) \<and>
            (ignore_fn cfg = None \<longrightarrow>
               new_events w2 w' =
                 [MethodTest, CallGetToken, Verify s (getToken_fn cfg req res1),
                  if verify c s (getToken_fn cfg req res1) then CallNext else SendStatus 412])) \<and>
         (\<forall>ms. IGNORED_METHODS cfg = JArray ms \<longrightarrow>
            method_test cfg req = Some (JString (toLowerCase (req_method req)) \<in> set ms))"
proof -
  have m: "gate cfg c s req res1 w2 = (out, res', w')"
    using middleware_resolved [OF assms(1,2), of req res] assms(3,4) by simp
  have out: "out = fst (gate cfg c s req res1 w2)"
    and w': "w' = snd (snd (gate cfg c s req res1 w2))"
    using m by simp_all
  have 1: "out = Proceed \<and> new_events w2 w' = [MethodTest, CallNext]"
    if "method_test cfg req = Some True"
    unfolding out w' using gate_method [OF that, of c s res1 w2]
    by (simp add: new_events_append)
  have 2: "out = Threw \<and> new_events w2 w' = [MethodTest, ThrowTypeError]"
    if "method_test cfg req = None"
    unfolding out w' using gate_throws [OF that, of c s res1 w2]
    by (simp add: new_events_append)
  have 3: "out = Proceed \<and> new_events w2 w' = [MethodTest, CallIgnore, CallNext]"
    if "method_test cfg req = Some False" "ignore_fn cfg = Some f" "truthy (f req res1)" for f
    unfolding out w' using gate_custom [OF that, of c s w2]
    by (simp add: new_events_append)
  have 4: "new_events w2 w' =
      [MethodTest, CallIgnore, CallGetToken, Verify s (getToken_fn cfg req res1),
       if verify c s (getToken_fn cfg req res1) then CallNext else SendStatus 412]"
    if "method_test cfg req = Some False" "ignore_fn cfg = Some f" "\<not> truthy (f req res1)" for f
  proof -
    have "\<forall>g. ignore_fn cfg = Some g \<longrightarrow> \<not> truthy (g req res1)"
      using that by simp
    from gate_verify(3) [OF that(1) this, of c s w2] that(2) show ?thesis
      unfolding w' by (simp add: new_events_def)
  qed
  have 5: "new_events w2 w' =
      [MethodTest, CallGetToken, Verify s (getToken_fn cfg req res1),
       if verify c s (getToken_fn cfg req res1) then CallNext else SendStatus 412]"
    if "method_test cfg req = Some False" "ignore_fn cfg = None"
  proof -
    have "\<forall>g. ignore_fn cfg = Some g \<longrightarrow> \<not> truthy (g req res1)"
      using that by simp
    from gate_verify(3) [OF that(1) this, of c s w2] that(2) show ?thesis
      unfolding w' by (simp add: new_events_def)
  qed
  from 1 2 3 4 5 method_test_array [of cfg _ req] show ?thesis
    by blast
qed

theorem decision_order_witness:
  "fst post_ignored = Proceed \<and>
   new_events (snd (publish ignoring_config toy_csrf (JString ''S'') fresh_response
                 (snd (obtainSecret ignoring_config toy_csrf (world_of store_S [])))))
     (snd (snd post_ignored)) = [MethodTest, CallIgnore, CallNext]"
  using decision_order
    [where cfg = ignoring_config and c = toy_csrf and w = "world_of store_S []"
       and err = JNull and s = "JString ''S''"
       and ?w1.0 = "snd (obtainSecret ignoring_config toy_csrf (world_of store_S []))"
       and ?res1.0 = "fst (publish ignoring_config toy_csrf (JString ''S'') fresh_response
                 (snd (obtainSecret ignoring_config toy_csrf (world_of store_S []))))"
       and ?w2.0 = "snd (publish ignoring_config toy_csrf (JString ''S'') fresh_response
                 (snd (obtainSecret ignoring_config toy_csrf (world_of store_S []))))"
       and req = "header_request ''POST'' JUndefined" and res = fresh_response
       and out = "fst post_ignored" and res' = "fst (snd post_ignored)"
       and w' = "snd (snd post_ignored)"]
  by (simp add: post_ignored_def method_test_def new_events_def model_defs instance_defs)


lemma middleware_verifies:
  assumes "obtainSecret cfg c w = ((err, s), w1)"
    and "\<not> truthy err"
    and "publish cfg c s res w1 = (res1, w2)"
    and "IGNORED_METHODS cfg = JArray ms"
    and "JString (toLowerCase (req_method req)) \<notin> set ms"
    and "\<forall>f. ignore_fn cfg = Some f \<longrightarrow> \<not> truthy (f req res1)"
    and "middleware cfg c req res w = (out, res', w')"
  shows "out = (if verify c s (getToken_fn cfg req res1) then Proceed else Rejected)"
    and "res' = (if verify c s (getToken_fn cfg req res1) then res1
                 else res1\<lparr>status := Some 412\<rparr>)"
    and "trace w' =
           trace w2 @ MethodTest # (if ignore_fn cfg = None then [] else [CallIgnore]) @
             [CallGetToken, Verify s (getToken_fn cfg req res1),
              if verify c s (getToken_fn cfg req res1) then CallNext else SendStatus 412]"
proof -
  have m: "gate cfg c s req res1 w2 = (out, res', w')"
    using middleware_resolved [OF assms(1,2), of req res] assms(3,7) by simp
  have t: "method_test cfg req = Some False"
    using method_test_array [OF assms(4), of req] assms(5) by simp
  show "out = (if verify c s (getToken_fn cfg req res1) then Proceed else Rejected)"
    using gate_verify(1) [OF t assms(6), of c s w2] m by simp
  show "res' = (if verify c s (getToken_fn cfg req res1) then res1
                 else res1\<lparr>status := Some 412\<rparr>)"
    using gate_verify(2) [OF t assms(6), of c s w2] m by simp
  show "trace w' =
           trace w2 @ MethodTest # (if ignore_fn cfg = None then [] else [CallIgnore]) @
             [CallGetToken, Verify s (getToken_fn cfg req res1),
              if verify c s (getToken_fn cfg req res1) then CallNext else SendStatus 412]"
    using gate_verify(3) [OF t assms(6), of c s w2] m by simp
qed

text \<open>
  C1. On a request that requires verification (the method is not among the ignored
  methods, and the ignore predicate, if any, does not return a truthy value), the
  continuation is called exactly when \<^verbatim>\<open>verify\<close> accepts the extracted token against
  the secret of the session; otherwise the response is ended with the status 412. Under
  the contract of the cryptography collaborator, a token created from that secret is
  accepted, and a missing token or a token created from another secret is rejected.
\<close>

theorem verification_decides:
  assumes "obtainSecret cfg c w = ((err, s), w1)"
    and "\<not> truthy err"
    and "publish cfg c s res w1 = (res1, w2)"
    and "IGNORED_METHODS cfg = JArray ms"
    and "JString (toLowerCase (req_method req)) \<notin> set ms"
    and "\<forall>f. ignore_fn cfg = Some f \<longrightarrow> \<not> truthy (f req res1)"
    and "middleware cfg c req res w = (out, res', w')"
  shows "(out = Proceed \<longleftrightarrow> verify c s (getToken_fn cfg req res1)) \<and>
         (last (trace w') = CallNext \<longleftrightarrow> verify c s (getToken_fn cfg req res1)) \<and>
         (\<not> verify c s (getToken_fn cfg req res1) \<longrightarrow>
            out = Rejected \<and> status res' = Some 412 \<and> last (trace w') = SendStatus 412) \<and>
         (csrf_contract c \<longrightarrow>
            ((\<exists>r. getToken_fn cfg req res1 = fst (create c s r)) \<longrightarrow> out = Proceed) \<and>
            (\<not> truthy (getToken_fn cfg req res1) \<longrightarrow>
               out = Rejected \<and> status res' = Some 412) \<and>
            ((\<exists>s' r. s' \<noteq> s \<and> getToken_fn cfg req res1 = fst (create c s' r)) \<longrightarrow>
               out = Rejected \<and> status res' = Some 412))"
proof -
  note v = middleware_verifies [OF assms]
  have a: "out = Proceed \<longleftrightarrow> verify c s (getToken_fn cfg req res1)"
    by (simp add: v(1))
  have b: "last (trace w') = CallNext \<longleftrightarrow> verify c s (getToken_fn cfg req res1)"
    by (simp add: v(3))
  have r: "out = Rejected \<and> status res' = Some 412 \<and> last (trace w') = SendStatus 412"
    if "\<not> verify c s (getToken_fn cfg req res1)"
    using that by (simp add: v)
  have k: "((\<exists>r. getToken_fn cfg req res1 = fst (create c s r)) \<longrightarrow> out = Proceed) \<and>
      (\<not> truthy (getToken_fn cfg req res1) \<longrightarrow> out = Rejected \<and> status res' = Some 412) \<and>
      ((\<exists>s' r. s' \<noteq> s \<and> getToken_fn cfg req res1 = fst (create c s' r)) \<longrightarrow>
         out = Rejected \<and> status res' = Some 412)"
    if "csrf_contract c"
  proof (intro conjI impI)
    assume "\<exists>r. getToken_fn cfg req res1 = fst (create c s r)"
    then have "verify c s (getToken_fn cfg req res1)"
      using that by (auto simp: csrf_contract_def)
    then show "out = Proceed" by (simp add: a)
  next
    assume "\<not> truthy (getToken_fn cfg req res1)"
    then have n: "\<not> verify c s (getToken_fn cfg req res1)"
      using that by (simp add: csrf_contract_def)
    from r [OF n] show "out = Rejected" and "status res' = Some 412" by simp_all
  next
    assume "\<exists>s' r. s' \<noteq> s \<and> getToken_fn cfg req res1 = fst (create c s' r)"
    then have n: "\<not> verify c s (getToken_fn cfg req res1)"
      using that by (auto simp: csrf_contract_def)
    from r [OF n] show "out = Rejected" and "status res' = Some 412" by simp_all
  qed
  from a b r k show ?thesis by blast
qed

theorem verification_decides_witness:
  "csrf_contract toy_csrf \<and> fst post_with_token = Proceed \<and>
   last (trace (snd (snd post_with_token))) = CallNext"
  using verification_decides
    [where cfg = default_config and c = toy_csrf and w = "world_of store_S []"
       and err = JNull and s = "JString ''S''"
       and ?w1.0 = "snd (obtainSecret default_config toy_csrf (world_of store_S []))"
       and ?res1.0 = "fst (publish default_config toy_csrf (JString ''S'') fresh_response
                 (snd (obtainSecret default_config toy_csrf (world_of store_S []))))"
       and ?w2.0 = "snd (publish default_config toy_csrf (JString ''S'') fresh_response
                 (snd (obtainSecret default_config toy_csrf (world_of store_S []))))"
       and ms = "[JString ''get'', JString ''head'', JString ''options'']"
       and req = "header_request ''POST'' (fst (create toy_csrf (JString ''S'') 7))"
       and res = fresh_response
       and out = "fst post_with_token" and res' = "fst (snd post_with_token)"
       and w' = "snd (snd post_with_token)"]
    toy_contract(1)
  by (simp add: post_with_token_def model_defs instance_defs)

text \<open>
  C6. On a request that is not bypassed and whose verification fails, the middleware
  answers with the status 412 and does not call the continuation, neither plainly nor
  with an error; a missing or empty token, which the collaborator never verifies, is
  treated as any token that fails the check.
\<close>

theorem failed_verification_rejected:
  assumes "obtainSecret cfg c w = ((err, s), w1)"
    and "\<not> truthy err"
    and "publish cfg c s res w1 = (res1, w2)"
    and "IGNORED_METHODS cfg = JArray ms"
    and "JString (toLowerCase (req_method req)) \<notin> set ms"
    and "\<forall>f. ignore_fn cfg = Some f \<longrightarrow> \<not> truthy (f req res1)"
    and "\<not> verify c s (getToken_fn cfg req res1) \<or>
         (csrf_contract c \<and> \<not> truthy (getToken_fn cfg req res1))"
    and "middleware cfg c req res w = (out, res', w')"
  shows "out = Rejected \<and> status res' = Some 412 \<and>
         last (trace w') = SendStatus 412 \<and>
         \<not> list_ex is_next (new_events w w')"
proof -
  have n: "\<not> verify c s (getToken_fn cfg req res1)"
    using assms(7) by (auto simp: csrf_contract_def)
  note v = middleware_verifies [OF assms(1-6,8)]
  obtain es where es: "trace w2 = trace w @ es" "\<not> list_ex is_next es"
    using resolved_prefix [OF assms(1,3)] by auto
  have "new_events w w' =
      es @ MethodTest # (if ignore_fn cfg = None then [] else [CallIgnore]) @
        [CallGetToken, Verify s (getToken_fn cfg req res1), SendStatus 412]"
    using n by (simp add: new_events_def v(3) es(1))
  then have "\<not> list_ex is_next (new_events w w')"
    using es(2) by simp
  then show ?thesis
    using n by (simp add: v)
qed

theorem failed_verification_rejected_witness:
  "fst post_without_token = Rejected \<and> status (fst (snd post_without_token)) = Some 412 \<and>
   new_events (world_of store_S []) (snd (snd post_without_token)) =
     [SessionGet (JString ''XSRF-SECRET''), Create (JString ''S''),
      SetLocals ''xsrfToken'' (JArray [JString [], JString ''S'']),
      SetCookie (JString ''XSRF-TOKEN'') (JArray [JString [], JString ''S'']),
      MethodTest, CallGetToken, Verify (JString ''S'') JUndefined, SendStatus 412]"
  using failed_verification_rejected
    [where cfg = default_config and c = toy_csrf and w = "world_of store_S []"
       and err = JNull and s = "JString ''S''"
       and ?w1.0 = "snd (obtainSecret default_config toy_csrf (world_of store_S []))"
       and ?res1.0 = "fst (publish default_config toy_csrf (JString ''S'') fresh_response
                 (snd (obtainSecret default_config toy_csrf (world_of store_S []))))"
       and ?w2.0 = "snd (publish default_config toy_csrf (JString ''S'') fresh_response
                 (snd (obtainSecret default_config toy_csrf (world_of store_S []))))"
       and ms = "[JString ''get'', JString ''head'', JString ''options'']"
       and req = "header_request ''POST'' JUndefined"
       and res = fresh_response
       and out = "fst post_without_token" and res' = "fst (snd post_without_token)"
       and w' = "snd (snd post_without_token)"]
  by (simp add: post_without_token_def new_events_def model_defs instance_defs)

section \<open>The method bypass\<close>

lemma lower_char_idem: "lower_char (lower_char c) = lower_char c"
  by (simp add: lower_char_def)

lemma toLowerCase_idem: "toLowerCase (toLowerCase s) = toLowerCase s"
  by (simp add: toLowerCase_def lower_char_idem)

lemma member_ci_lowercase:
  assumes "member_ci m ms" "list_all lowercase_entry ms"
  shows "JString (toLowerCase m) \<in> set ms"
proof -
  from assms(1) obtain x where x: "x \<in> set ms"
    "case x of JString e \<Rightarrow> toLowerCase e = toLowerCase m | _ \<Rightarrow> False"
    by (auto simp: member_ci_def list_ex_iff)
  from x(2) obtain e where e: "x = JString e" "toLowerCase e = toLowerCase m"
    by (cases x) simp_all
  have "lowercase_entry x"
    using assms(2) x(1) by (simp add: list_all_iff)
  then have "toLowerCase e = e"
    by (simp add: lowercase_entry_def e(1))
  with e x(1) show ?thesis by simp
qed

text \<open>
  C2, as the code has it. When the method of the request, lowercased, is an entry of the
  configured array of ignored methods, verification is skipped and the continuation is
  called at once: no ignore predicate, extraction or verification is evaluated. The
  comparison is case-insensitive in the method of the request only: it holds for every
  casing of the request's method when the configured entries are lowercase, as the
  documentation of the option asks, and an entry with an uppercase letter equals no
  lowercased method.
\<close>

theorem ignored_method_bypasses:
  assumes "IGNORED_METHODS cfg = JArray ms"
    and "JString (toLowerCase (req_method req)) \<in> set ms \<or>
         (list_all lowercase_entry ms \<and> member_ci (req_method req) ms)"
    and "middleware cfg c req res w = (out, res', w')"
  shows "(out = Proceed \<or> (\<exists>e. out = Failed e)) \<and>
         list_ex is_next (new_events w w') \<and>
         \<not> list_ex is_check (new_events w w') \<and>
         (\<forall>err s w1 res1 w2.
            obtainSecret cfg c w = ((err, s), w1) \<and> \<not> truthy err \<and>
            publish cfg c s res w1 = (res1, w2) \<longrightarrow>
              out = Proceed \<and> new_events w2 w' = [MethodTest, CallNext]) \<and>
         (\<forall>e. toLowerCase e \<noteq> e \<longrightarrow> JString (toLowerCase (req_method req)) \<noteq> JString e)"
proof -
  have mem: "JString (toLowerCase (req_method req)) \<in> set ms"
    using assms(2) member_ci_lowercase by blast
  have t: "method_test cfg req = Some True"
    using method_test_array [OF assms(1), of req] mem by simp
  obtain err s w1 where o: "obtainSecret cfg c w = ((err, s), w1)"
    by (metis surj_pair)
  obtain es where es: "trace w1 = trace w @ es" "\<not> list_ex is_check es"
  proof -
    have "\<exists>es. trace (snd (obtainSecret cfg c w)) = trace w @ es \<and> \<not> list_ex is_check es"
    proof (cases "truthy (fault_at w 0)")
      case True
      then show ?thesis by (simp add: obtainSecret_read_error(2))
    next
      case False
      then show ?thesis
        by (cases "truthy (stored w (SESSION_KEY cfg))")
          (simp_all add: obtainSecret_found(2) obtainSecret_created(2))
    qed
    with o that show ?thesis by auto
  qed
  have main: "(out = Proceed \<or> (\<exists>e. out = Failed e)) \<and>
      list_ex is_next (new_events w w') \<and> \<not> list_ex is_check (new_events w w')"
  proof (cases "truthy err")
    case True
    from middleware_failed [OF o True, of req res] assms(3)
    have "out = Failed err" "w' = emit (CallNextErr err) w1" by simp_all
    then show ?thesis using es by (simp add: new_events_def)
  next
    case False
    let ?res1 = "fst (publish cfg c s res w1)" and ?w2 = "snd (publish cfg c s res w1)"
    have m: "gate cfg c s req ?res1 ?w2 = (out, res', w')"
      using middleware_resolved [OF o False, of req res] assms(3) by simp
    have "out = Proceed"
      using gate_method(1) [OF t, of c s ?res1 ?w2] m by simp
    moreover have "trace w' = trace ?w2 @ [MethodTest, CallNext]"
      using gate_method(3) [OF t, of c s ?res1 ?w2] m by simp
    then have "new_events w w' =
        es @ [Create s, SetLocals ''xsrfToken'' (fst (create c s (entropy w1))),
              SetCookie (COOKIE_NAME cfg) (fst (create c s (entropy w1))), MethodTest, CallNext]"
      by (simp add: new_events_def publish_world es(1))
    ultimately show ?thesis using es(2) by simp
  qed
  have res: "out = Proceed \<and> new_events w2 w' = [MethodTest, CallNext]"
    if "obtainSecret cfg c w = ((err', s'), w1')" "\<not> truthy err'"
      "publish cfg c s' res w1' = (res1, w2)" for err' s' w1' res1 w2
  proof -
    have m: "gate cfg c s' req res1 w2 = (out, res', w')"
      using middleware_resolved [OF that(1,2), of req res] that(3) assms(3) by simp
    show ?thesis
      using gate_method(1,3) [OF t, of c s' res1 w2] m by (simp add: new_events_def)
  qed
  have up: "JString (toLowerCase (req_method req)) \<noteq> JString e" if "toLowerCase e \<noteq> e" for e
    using that toLowerCase_idem [of "req_method req"] by auto
  from main res up show ?thesis by blast
qed

theorem ignored_method_bypasses_witness:
  "fst (middleware default_config toy_csrf (header_request ''Get'' JUndefined) fresh_response
          (world_of store_S [])) = Proceed"
  using ignored_method_bypasses
    [where cfg = default_config and c = toy_csrf and w = "world_of store_S []"
       and ms = "[JString ''get'', JString ''head'', JString ''options'']"
       and req = "header_request ''Get'' JUndefined" and res = fresh_response
       and out = "fst (middleware default_config toy_csrf (header_request ''Get'' JUndefined)
          fresh_response (world_of store_S []))"
       and res' = "fst (snd (middleware default_config toy_csrf (header_request ''Get'' JUndefined)
          fresh_response (world_of store_S [])))"
       and w' = "snd (snd (middleware default_config toy_csrf (header_request ''Get'' JUndefined)
          fresh_response (world_of store_S [])))"]
  by (simp add: model_defs instance_defs)

text \<open>
  C2 as stated fails on an entry written in uppercase: with the ignored methods
  \<^verbatim>\<open>['GET']\<close>, a GET request is a member under case-insensitive comparison, and yet its
  token is verified and the request is answered with 412.
\<close>

theorem uppercase_entry_counterexample:
  "IGNORED_METHODS uppercase_config = JArray [JString ''GET''] \<and>
   member_ci ''GET'' [JString ''GET''] \<and>
   fst get_uppercase = Rejected \<and>
   status (fst (snd get_uppercase)) = Some 412 \<and>
   list_ex is_check (new_events (world_of store_S []) (snd (snd get_uppercase)))"
  by (simp add: get_uppercase_def uppercase_config_def member_ci_def new_events_def
      model_defs instance_defs)


section \<open>The secret over the requests of a session\<close>

lemma writes_append: "writes (xs @ ys) = writes xs + writes ys"
  by (simp add: writes_def)

lemma new_events_trans:
  assumes "trace w1 = trace w @ xs" "trace w2 = trace w1 @ ys"
  shows "new_events w w2 = xs @ ys"
  using assms by (simp add: new_events_def)

lemma middleware_after_resolution:
  "session (snd (snd (middleware cfg c req res w))) = session (snd (obtainSecret cfg c w))"
  "\<exists>es. trace (snd (snd (middleware cfg c req res w))) = trace (snd (obtainSecret cfg c w)) @ es
     \<and> writes es = 0"
proof -
  obtain err s w1 where o: "obtainSecret cfg c w = ((err, s), w1)"
    by (metis surj_pair)
  show "session (snd (snd (middleware cfg c req res w))) = session (snd (obtainSecret cfg c w))"
  proof (cases "truthy err")
    case True
    then show ?thesis by (simp add: middleware_failed [OF o True] o)
  next
    case False
    then show ?thesis
      by (simp add: middleware_resolved [OF o False] o gate_session publish_world)
  qed
  show "\<exists>es. trace (snd (snd (middleware cfg c req res w))) =
      trace (snd (obtainSecret cfg c w)) @ es \<and> writes es = 0"
  proof (cases "truthy err")
    case True
    then show ?thesis by (simp add: middleware_failed [OF o True] o writes_def)
  next
    case False
    let ?res1 = "fst (publish cfg c s res w1)" and ?w2 = "snd (publish cfg c s res w1)"
    have "\<exists>ds. trace (snd (snd (gate cfg c s req ?res1 ?w2))) = trace ?w2 @ ds \<and> writes ds = 0"
      by (auto simp: gate_def Let_def writes_def split: option.splits)
    then show ?thesis
      by (auto simp: middleware_resolved [OF o False] o publish_world writes_def)
  qed
qed

lemma obtainSecret_kept:
  assumes "truthy (stored w (SESSION_KEY cfg))"
  shows "store (session (snd (obtainSecret cfg c w))) = store (session w)"
    and "\<exists>es. trace (snd (obtainSecret cfg c w)) = trace w @ es \<and> writes es = 0"
proof -
  show "store (session (snd (obtainSecret cfg c w))) = store (session w)"
    using assms
    by (cases "truthy (fault_at w 0)")
      (simp_all add: obtainSecret_read_error(3) obtainSecret_found(3))
  show "\<exists>es. trace (snd (obtainSecret cfg c w)) = trace w @ es \<and> writes es = 0"
    using assms
    by (cases "truthy (fault_at w 0)")
      (simp_all add: obtainSecret_read_error(2) obtainSecret_found(2) writes_def)
qed

lemma middleware_kept:
  assumes "truthy (stored w (SESSION_KEY cfg))"
  shows "store (session (snd (snd (middleware cfg c req res w)))) = store (session w)"
    and "\<exists>es. trace (snd (snd (middleware cfg c req res w))) = trace w @ es \<and> writes es = 0"
proof -
  show "store (session (snd (snd (middleware cfg c req res w)))) = store (session w)"
    by (simp add: middleware_after_resolution(1) obtainSecret_kept(1) [OF assms])
  obtain xs where xs: "trace (snd (obtainSecret cfg c w)) = trace w @ xs" "writes xs = 0"
    using obtainSecret_kept(2) [OF assms, of c] by auto
  obtain ys where ys: "trace (snd (snd (middleware cfg c req res w))) =
      trace (snd (obtainSecret cfg c w)) @ ys" "writes ys = 0"
    using middleware_after_resolution(2) [of cfg c req res w] by auto
  have "trace (snd (snd (middleware cfg c req res w))) = trace w @ (xs @ ys)"
    by (simp add: xs(1) ys(1))
  moreover have "writes (xs @ ys) = 0"
    by (simp add: writes_append xs(2) ys(2))
  ultimately show "\<exists>es. trace (snd (snd (middleware cfg c req res w))) = trace w @ es \<and>
      writes es = 0"
    by blast
qed

lemma stored_cong: "store (session w') = store (session w) \<Longrightarrow> stored w' k = stored w k"
  by (simp add: stored_def)

lemma serve_kept:
  assumes "truthy (stored w (SESSION_KEY cfg))"
  shows "store (session (serve cfg c rs w)) = store (session w) \<and>
         (\<exists>es. trace (serve cfg c rs w) = trace w @ es \<and> writes es = 0)"
  using assms
proof (induction rs arbitrary: w)
  case Nil
  show ?case by (simp add: writes_def)
next
  case (Cons r rs)
  obtain req res where r: "r = (req, res)" by (cases r)
  let ?w1 = "snd (snd (middleware cfg c req res w))"
  have st: "store (session ?w1) = store (session w)"
    by (rule middleware_kept(1) [OF Cons.prems])
  obtain xs where xs: "trace ?w1 = trace w @ xs" "writes xs = 0"
    using middleware_kept(2) [OF Cons.prems, of c req res] by auto
  have "truthy (stored ?w1 (SESSION_KEY cfg))"
    using Cons.prems by (simp add: stored_cong [OF st])
  from Cons.IH [OF this]
  obtain ys where ys: "store (session (serve cfg c rs ?w1)) = store (session ?w1)"
    "trace (serve cfg c rs ?w1) = trace ?w1 @ ys" "writes ys = 0"
    by auto
  have "trace (serve cfg c (r # rs) w) = trace w @ (xs @ ys)"
    by (simp add: r xs(1) ys(2))
  moreover have "writes (xs @ ys) = 0"
    by (simp add: writes_append xs(2) ys(3))
  moreover have "store (session (serve cfg c (r # rs) w)) = store (session w)"
    by (simp add: r ys(1) st)
  ultimately show ?case by blast
qed

lemma fault_at_falsy:
  assumes "\<forall>e\<in>set (faults (session w)). \<not> truthy e"
  shows "\<not> truthy (fault_at w n)"
proof (cases "drop n (faults (session w))")
  case Nil
  then show ?thesis by (simp add: fault_at_def next_fault_def)
next
  case (Cons e es)
  then have "e \<in> set (drop n (faults (session w)))" by simp
  then have "e \<in> set (faults (session w))" by (rule in_set_dropD)
  with assms Cons show ?thesis by (simp add: fault_at_def next_fault_def)
qed

lemma middleware_first_write:
  assumes "\<not> truthy (stored w (SESSION_KEY cfg))" "\<not> truthy (fault_at w 0)"
  shows "writes (new_events w (snd (snd (middleware cfg c req res w)))) = 1"
proof -
  obtain ys where ys: "trace (snd (snd (middleware cfg c req res w))) =
      trace (snd (obtainSecret cfg c w)) @ ys" "writes ys = 0"
    using middleware_after_resolution(2) [of cfg c req res w] by auto
  have "new_events w (snd (snd (middleware cfg c req res w))) =
      [SessionGet (SESSION_KEY cfg), SecretSync,
       SessionSet (SESSION_KEY cfg) (fst (secretSync c (entropy w)))] @ ys"
    by (rule new_events_trans [OF obtainSecret_created(2) [OF assms(2,1)] ys(1)])
  with ys(2) show ?thesis
    by (simp add: writes_def)
qed

lemma middleware_read_failure:
  assumes "truthy (fault_at w 0)"
  shows "writes (new_events w (snd (snd (middleware cfg c req res w)))) = 0"
proof -
  obtain ys where ys: "trace (snd (snd (middleware cfg c req res w))) =
      trace (snd (obtainSecret cfg c w)) @ ys" "writes ys = 0"
    using middleware_after_resolution(2) [of cfg c req res w] by auto
  have "new_events w (snd (snd (middleware cfg c req res w))) =
      [SessionGet (SESSION_KEY cfg)] @ ys"
    by (rule new_events_trans [OF obtainSecret_read_error(2) [OF assms] ys(1)])
  with ys(2) show ?thesis
    by (simp add: writes_def)
qed


text \<open>
  C7, as the code has it. A session whose configured key holds a truthy secret is never
  written: over any sequence of requests there is no session write, the store stays as
  it was, and every resolution whose read succeeds returns the stored value. On a
  session without a secret, the first request performs exactly one session write when
  its read succeeds, and none when its read fails; when that read and that write succeed,
  the whole sequence of requests performs this one write, and the session keeps the
  secret generated then.
\<close>

theorem secret_never_overwritten:
  "(truthy (stored w (SESSION_KEY cfg)) \<longrightarrow>
      writes (new_events w (serve cfg c rs w)) = 0 \<and>
      store (session (serve cfg c rs w)) = store (session w) \<and>
      (\<not> truthy (fault_at (serve cfg c rs w) 0) \<longrightarrow>
         fst (obtainSecret cfg c (serve cfg c rs w)) = (JNull, stored w (SESSION_KEY cfg)))) \<and>
   (\<not> truthy (stored w (SESSION_KEY cfg)) \<and> \<not> truthy (fault_at w 0) \<longrightarrow>
      writes (new_events w (snd (snd (middleware cfg c req res w)))) = 1) \<and>
   (truthy (fault_at w 0) \<longrightarrow>
      writes (new_events w (snd (snd (middleware cfg c req res w)))) = 0) \<and>
   (\<not> truthy (stored w (SESSION_KEY cfg)) \<and> \<not> truthy (fault_at w 0) \<and>
    \<not> truthy (fault_at w 1) \<and> secret_contract c \<longrightarrow>
      writes (new_events w (serve cfg c ((req, res) # rs) w)) = 1 \<and>
      stored (serve cfg c ((req, res) # rs) w) (SESSION_KEY cfg) =
        fst (secretSync c (entropy w)))"
proof (intro conjI impI)
  assume a: "truthy (stored w (SESSION_KEY cfg))"
  obtain es where es: "store (session (serve cfg c rs w)) = store (session w)"
    "trace (serve cfg c rs w) = trace w @ es" "writes es = 0"
    using serve_kept [OF a, of c rs] by auto
  show "writes (new_events w (serve cfg c rs w)) = 0"
    by (simp add: new_events_append [OF es(2)] es(3))
  show "store (session (serve cfg c rs w)) = store (session w)"
    by (rule es(1))
  show "fst (obtainSecret cfg c (serve cfg c rs w)) = (JNull, stored w (SESSION_KEY cfg))"
    if f: "\<not> truthy (fault_at (serve cfg c rs w) 0)"
  proof -
    have s: "stored (serve cfg c rs w) (SESSION_KEY cfg) = stored w (SESSION_KEY cfg)"
      by (rule stored_cong [OF es(1)])
    with a have "truthy (stored (serve cfg c rs w) (SESSION_KEY cfg))" by simp
    from obtainSecret_found(1) [OF f this, of c] s show ?thesis by simp
  qed
next
  assume "\<not> truthy (stored w (SESSION_KEY cfg)) \<and> \<not> truthy (fault_at w 0)"
  then show "writes (new_events w (snd (snd (middleware cfg c req res w)))) = 1"
    by (simp add: middleware_first_write)
next
  assume "truthy (fault_at w 0)"
  then show "writes (new_events w (snd (snd (middleware cfg c req res w)))) = 0"
    by (rule middleware_read_failure)
next
  assume h: "\<not> truthy (stored w (SESSION_KEY cfg)) \<and> \<not> truthy (fault_at w 0) \<and>
    \<not> truthy (fault_at w 1) \<and> secret_contract c"
  then have a: "\<not> truthy (stored w (SESSION_KEY cfg))" and b: "\<not> truthy (fault_at w 0)"
    and d: "\<not> truthy (fault_at w 1)" and k: "secret_contract c"
    by simp_all
  let ?new = "fst (secretSync c (entropy w))"
  let ?w1 = "snd (snd (middleware cfg c req res w))"
  have new: "truthy ?new"
    using k by (simp add: secret_contract_def)
  have "store (session ?w1) = (store (session w))(SESSION_KEY cfg \<mapsto> ?new)"
    using d by (simp add: middleware_after_resolution(1) obtainSecret_created(3) [OF b a])
  then have s1: "stored ?w1 (SESSION_KEY cfg) = ?new"
    by (simp add: stored_def)
  then have t1: "truthy (stored ?w1 (SESSION_KEY cfg))"
    using new by simp
  obtain es where es: "store (session (serve cfg c rs ?w1)) = store (session ?w1)"
    "trace (serve cfg c rs ?w1) = trace ?w1 @ es" "writes es = 0"
    using serve_kept [OF t1, of c rs] by auto
  have one: "writes (new_events w ?w1) = 1"
    by (simp add: middleware_first_write [OF a b])
  obtain xs where xs: "trace ?w1 = trace w @ xs"
    using middleware_after_resolution(2) [of cfg c req res w] obtainSecret_created(2) [OF b a, of c]
    by auto
  have "new_events w (serve cfg c ((req, res) # rs) w) = xs @ es"
    using new_events_trans [OF xs es(2)] by simp
  moreover have "writes xs = 1"
    using one by (simp add: new_events_append [OF xs])
  ultimately show "writes (new_events w (serve cfg c ((req, res) # rs) w)) = 1"
    by (simp add: writes_append es(3))
  show "stored (serve cfg c ((req, res) # rs) w) (SESSION_KEY cfg) =
      fst (secretSync c (entropy w))"
    using stored_cong [OF es(1), of "SESSION_KEY cfg"] s1 by simp
qed

theorem secret_never_overwritten_witness:
  "writes (new_events (world_of store_S [])
     (serve default_config toy_csrf
        [(header_request ''POST'' JUndefined, fresh_response),
         (header_request ''GET'' JUndefined, fresh_response)] (world_of store_S []))) = 0 \<and>
   writes (new_events (world_of Map.empty [])
     (serve default_config toy_csrf
        [(header_request ''GET'' JUndefined, fresh_response),
         (header_request ''POST'' JUndefined, fresh_response)] (world_of Map.empty []))) = 1 \<and>
   secret_contract toy_csrf"
  using secret_never_overwritten
    [of "world_of store_S []" default_config toy_csrf
       "[(header_request ''POST'' JUndefined, fresh_response),
         (header_request ''GET'' JUndefined, fresh_response)]"]
    secret_never_overwritten
    [of "world_of Map.empty []" default_config toy_csrf
       "[(header_request ''POST'' JUndefined, fresh_response)]"
       "header_request ''GET'' JUndefined" fresh_response]
    toy_contract(2)
  by (simp add: fault_at_def next_fault_def world_of_def stored_def store_S_def
      default_config_def module_exports_def empty_options_def js_or_def Let_def)

text \<open>
  C7 as stated fails when the read of the session fails: the first request of a session
  without a secret then hands the error to the continuation and writes nothing.
\<close>

theorem failing_read_counterexample:
  "stored (world_of Map.empty [JString ''ECONNREFUSED'']) (SESSION_KEY default_config) = JUndefined \<and>
   fst failing_read = Failed (JString ''ECONNREFUSED'') \<and>
   writes (new_events (world_of Map.empty [JString ''ECONNREFUSED'']) (snd (snd failing_read))) = 0"
  by (simp add: failing_read_def stored_def writes_def new_events_def model_defs instance_defs)

lemma faults_tl_falsy:
  "\<forall>e\<in>set xs. \<not> truthy e \<Longrightarrow> \<forall>e\<in>set (tl xs). \<not> truthy e"
  by (cases xs) simp_all

text \<open>
  C8. Without errors of the session store, resolving the secret twice in sequence gives
  the same result both times: no error and a truthy secret, the second resolution
  returning the value that the first one found or stored, and writing nothing.
\<close>

theorem resolution_idempotent:
  assumes "\<forall>e\<in>set (faults (session w)). \<not> truthy e"
    and "secret_contract c"
    and "obtainSecret cfg c w = (r1, w1)"
    and "obtainSecret cfg c w1 = (r2, w2)"
  shows "r2 = r1 \<and> fst r1 = JNull \<and> truthy (snd r1) \<and>
         snd r2 = stored w1 (SESSION_KEY cfg) \<and>
         store (session w2) = store (session w1)"
proof -
  have f0: "\<not> truthy (fault_at w 0)" and f1: "\<not> truthy (fault_at w 1)"
    using fault_at_falsy [OF assms(1)] by simp_all
  have r1: "r1 = fst (obtainSecret cfg c w)" and w1: "w1 = snd (obtainSecret cfg c w)"
    using assms(3) by simp_all
  have r2: "r2 = fst (obtainSecret cfg c w1)" and w2: "w2 = snd (obtainSecret cfg c w1)"
    using assms(4) by simp_all
  have first: "r1 = (JNull, stored w1 (SESSION_KEY cfg)) \<and> truthy (stored w1 (SESSION_KEY cfg))
      \<and> (\<forall>e\<in>set (faults (session w1)). \<not> truthy e)"
  proof (cases "truthy (stored w (SESSION_KEY cfg))")
    case True
    have "store (session w1) = store (session w)"
      unfolding w1 by (rule obtainSecret_found(3) [OF f0 True])
    then have "stored w1 (SESSION_KEY cfg) = stored w (SESSION_KEY cfg)"
      by (rule stored_cong)
    moreover have "\<forall>e\<in>set (faults (session w1)). \<not> truthy e"
      unfolding w1 using faults_tl_falsy [OF assms(1)]
      by (simp add: obtainSecret_found(4) [OF f0 True])
    ultimately show ?thesis
      using True by (simp add: r1 obtainSecret_found(1) [OF f0 True])
  next
    case False
    let ?new = "fst (secretSync c (entropy w))"
    have new: "truthy ?new"
      using assms(2) by (simp add: secret_contract_def)
    have "store (session w1) = (store (session w))(SESSION_KEY cfg \<mapsto> ?new)"
      unfolding w1 using f1 by (simp add: obtainSecret_created(3) [OF f0 False])
    then have "stored w1 (SESSION_KEY cfg) = ?new"
      by (simp add: stored_def)
    moreover have "\<forall>e\<in>set (faults (session w1)). \<not> truthy e"
      unfolding w1 using faults_tl_falsy [OF faults_tl_falsy [OF assms(1)]]
      by (simp add: obtainSecret_created(4) [OF f0 False])
    ultimately show ?thesis
      using new f1 by (simp add: r1 obtainSecret_created(1) [OF f0 False])
  qed
  then have g0: "\<not> truthy (fault_at w1 0)"
    using fault_at_falsy [of w1 0] by blast
  have t: "truthy (stored w1 (SESSION_KEY cfg))"
    using first by simp
  have "r2 = (JNull, stored w1 (SESSION_KEY cfg))"
    unfolding r2 by (rule obtainSecret_found(1) [OF g0 t])
  moreover have "store (session w2) = store (session w1)"
    unfolding w2 by (rule obtainSecret_found(3) [OF g0 t])
  ultimately show ?thesis
    using first by simp
qed

theorem resolution_idempotent_witness:
  "fst (obtainSecret default_config toy_csrf (world_of Map.empty [])) = (JNull, JString ''secret'') \<and>
   fst (obtainSecret default_config toy_csrf
          (snd (obtainSecret default_config toy_csrf (world_of Map.empty [])))) =
     (JNull, JString ''secret'')"
  using resolution_idempotent
    [where w = "world_of Map.empty []" and c = toy_csrf and cfg = default_config
       and ?r1.0 = "fst (obtainSecret default_config toy_csrf (world_of Map.empty []))"
       and ?w1.0 = "snd (obtainSecret default_config toy_csrf (world_of Map.empty []))"
       and ?r2.0 = "fst (obtainSecret default_config toy_csrf
          (snd (obtainSecret default_config toy_csrf (world_of Map.empty []))))"
       and ?w2.0 = "snd (obtainSecret default_config toy_csrf
          (snd (obtainSecret default_config toy_csrf (world_of Map.empty []))))"]
    toy_contract(2)
  by (simp add: model_defs instance_defs)

end
